theory Spec2Isabelle
  imports Complex_Main "HOL-Library.AList"
begin

section \<open>JavaScript values\<close>

text \<open>
  The survey engine (surveyData.js, conditionEvaluator.js, surveyNavigation.js) works on
  untyped JSON data: response values come from form widgets or from \<^verbatim>\<open>JSON.parse\<close>.
  A response value is therefore a value of \<open>jsval\<close>. Numbers are exact rationals (the
  rounding of IEEE doubles is not modelled); an object is the list of its own enumerable
  properties, with distinct keys, in \<^verbatim>\<open>Object.entries\<close> order; a character is one code
  unit below 256.
\<close>

datatype jsval =
    JUndefined
  | JNull
  | JBool bool
  | JNum rat
  | JStr string
  | JArr "jsval list"
  | JObj "(string \<times> jsval) list"

text \<open>What the source can throw. \<open>Unmodelled\<close> marks the one place where the result in
  JavaScript depends on numeric coercion of non-numbers inside a sort comparator.\<close>

datatype error =
    TypeError
  | SyntaxError
  | LoadError
  | EmptySubmission
  | SubmitError string
  | Unmodelled

text \<open>\<^verbatim>\<open>!!v\<close>\<close>

fun truthy :: "jsval \<Rightarrow> bool" where
  "truthy JUndefined = False"
| "truthy JNull = False"
| "truthy (JBool b) = b"
| "truthy (JNum n) = (n \<noteq> 0)"
| "truthy (JStr s) = (s \<noteq> [])"
| "truthy (JArr xs) = True"
| "truthy (JObj kvs) = True"

text \<open>\<^verbatim>\<open>a === b\<close> between a stored value and a value of the survey definition: two objects
  or arrays are never the same reference.\<close>

fun strictEq :: "jsval \<Rightarrow> jsval \<Rightarrow> bool" where
  "strictEq (JArr xs) b = False"
| "strictEq (JObj kvs) b = False"
| "strictEq a b = (a = b)"

fun isArray :: "jsval \<Rightarrow> bool" where
  "isArray (JArr xs) = True"
| "isArray v = False"

text \<open>\<^verbatim>\<open>typeof v === 'object'\<close>: true of null, too.\<close>

fun typeofObject :: "jsval \<Rightarrow> bool" where
  "typeofObject JNull = True"
| "typeofObject (JArr xs) = True"
| "typeofObject (JObj kvs) = True"
| "typeofObject v = False"

subsection \<open>Strings\<close>

definition isWhiteSpace :: "char \<Rightarrow> bool" where
  "isWhiteSpace c = (of_char c \<in> {9, 10, 11, 12, 13, 32, 160 :: nat})"

text \<open>\<^verbatim>\<open>String.prototype.trim\<close>\<close>

definition trim :: "string \<Rightarrow> string" where
  "trim s = rev (dropWhile isWhiteSpace (rev (dropWhile isWhiteSpace s)))"

definition isDigit :: "char \<Rightarrow> bool" where
  "isDigit c = (48 \<le> (of_char c :: nat) \<and> (of_char c :: nat) \<le> 57)"

definition digitsValue :: "string \<Rightarrow> nat" where
  "digitsValue ds = foldl (\<lambda>acc c. 10 * acc + (of_char c - 48)) 0 ds"

text \<open>\<^verbatim>\<open>Number.prototype.toString\<close> on a non-negative integer, and on an integer.\<close>

fun digitsOf :: "nat \<Rightarrow> string" where
  "digitsOf n =
     (if n < 10 then [char_of (48 + n)]
      else digitsOf (n div 10) @ [char_of (48 + n mod 10)])"

declare digitsOf.simps [simp del]

definition natToString :: "nat \<Rightarrow> string" where
  "natToString n = digitsOf n"

definition intToString :: "int \<Rightarrow> string" where
  "intToString i = (if i < 0 then CHR ''-'' # natToString (nat (- i)) else natToString (nat i))"

text \<open>\<^verbatim>\<open>parseInt(s, 10)\<close>; \<open>None\<close> is NaN.\<close>

definition parseInt :: "string \<Rightarrow> int option" where
  "parseInt s =
     (let t = dropWhile isWhiteSpace s;
          neg = (t \<noteq> [] \<and> hd t = CHR ''-'');
          u = (if t \<noteq> [] \<and> (hd t = CHR ''-'' \<or> hd t = CHR ''+'') then tl t else t);
          ds = takeWhile isDigit u
      in if ds = [] then None
         else Some (if neg then - int (digitsValue ds) else int (digitsValue ds)))"

text \<open>The result of \<^verbatim>\<open>parseFloat\<close>.\<close>

datatype jsnum = NaN | Finite rat | PosInfinity | NegInfinity

text \<open>The exponent part of a decimal literal, if a well-formed one starts the string.\<close>

definition exponentPart :: "string \<Rightarrow> int" where
  "exponentPart s =
     (if s \<noteq> [] \<and> (hd s = CHR ''e'' \<or> hd s = CHR ''E'') then
        (let t = tl s;
             neg = (t \<noteq> [] \<and> hd t = CHR ''-'');
             u = (if t \<noteq> [] \<and> (hd t = CHR ''-'' \<or> hd t = CHR ''+'') then tl t else t);
             ds = takeWhile isDigit u
         in if ds = [] then 0
            else if neg then - int (digitsValue ds) else int (digitsValue ds))
      else 0)"

definition scale10 :: "rat \<Rightarrow> int \<Rightarrow> rat" where
  "scale10 x e = (if e < 0 then x / 10 ^ nat (- e) else x * 10 ^ nat e)"

text \<open>The longest prefix that is a decimal literal (no sign), as a number.\<close>

definition unsignedDecimal :: "string \<Rightarrow> rat option" where
  "unsignedDecimal s =
     (let ip = takeWhile isDigit s;
          r = dropWhile isDigit s;
          fp = (if r \<noteq> [] \<and> hd r = CHR ''.'' then takeWhile isDigit (tl r) else []);
          r' = (if r \<noteq> [] \<and> hd r = CHR ''.'' then dropWhile isDigit (tl r) else r)
      in if ip = [] \<and> fp = [] then None
         else Some (scale10
                (of_nat (digitsValue ip) + of_nat (digitsValue fp) / 10 ^ length fp)
                (exponentPart r')))"

definition parseFloatString :: "string \<Rightarrow> jsnum" where
  "parseFloatString s =
     (let t = dropWhile isWhiteSpace s;
          neg = (t \<noteq> [] \<and> hd t = CHR ''-'');
          u = (if t \<noteq> [] \<and> (hd t = CHR ''-'' \<or> hd t = CHR ''+'') then tl t else t)
      in if take 8 u = ''Infinity'' then (if neg then NegInfinity else PosInfinity)
         else (case unsignedDecimal u of
                 None \<Rightarrow> NaN
               | Some x \<Rightarrow> Finite (if neg then - x else x)))"

text \<open>\<^verbatim>\<open>parseFloat(v)\<close> converts \<open>v\<close> to a string first. An array prints as its elements
  joined by commas (null and undefined print as nothing), and a comma ends every number, so
  only the first element counts; booleans, null, undefined and plain objects print as text
  that starts no number.\<close>

fun parseFloat :: "jsval \<Rightarrow> jsnum" where
  "parseFloat (JNum n) = Finite n"
| "parseFloat (JStr s) = parseFloatString s"
| "parseFloat (JArr []) = NaN"
| "parseFloat (JArr (x # xs)) = parseFloat x"
| "parseFloat v = NaN"

fun greater :: "jsnum \<Rightarrow> rat \<Rightarrow> bool" where
  "greater NaN t = False"
| "greater (Finite x) t = (x > t)"
| "greater PosInfinity t = True"
| "greater NegInfinity t = False"

fun less_than :: "jsnum \<Rightarrow> rat \<Rightarrow> bool" where
  "less_than NaN t = False"
| "less_than (Finite x) t = (x < t)"
| "less_than PosInfinity t = False"
| "less_than NegInfinity t = True"

subsection \<open>Property access\<close>

text \<open>\<^verbatim>\<open>Object.entries(v)\<close> of an object or an array.\<close>

fun entries :: "jsval \<Rightarrow> (string \<times> jsval) list" where
  "entries (JObj kvs) = kvs"
| "entries (JArr xs) = zip (map natToString [0..<length xs]) xs"
| "entries v = []"

text \<open>\<^verbatim>\<open>v[k]\<close> and \<^verbatim>\<open>v.k\<close>: a TypeError on null and undefined. The engine only tests the
  result for truth or for being \<^verbatim>\<open>true\<close>. An inherited property (a function) and an index
  or the length of a string are never \<^verbatim>\<open>true\<close>, and the keys the engine reads with a
  truth test (\<^verbatim>\<open>value\<close>, \<^verbatim>\<open>isOther\<close>) are neither inherited nor defined on a primitive
  value, so all of those read as undefined here.\<close>

fun getProp :: "jsval \<Rightarrow> string \<Rightarrow> error + jsval" where
  "getProp JUndefined k = Inl TypeError"
| "getProp JNull k = Inl TypeError"
| "getProp (JObj kvs) k = Inr (case map_of kvs k of None \<Rightarrow> JUndefined | Some v \<Rightarrow> v)"
| "getProp (JArr xs) k =
     (if k = ''length'' then Inr (JNum (of_nat (length xs)))
      else Inr (case map_of (entries (JArr xs)) k of None \<Rightarrow> JUndefined | Some v \<Rightarrow> v))"
| "getProp v k = Inr JUndefined"

text \<open>What \<^verbatim>\<open>JSON.parse(JSON.stringify(v))\<close> gives for a property value \<open>v\<close>: an undefined
  array element becomes null, a property holding undefined is dropped (it reads as undefined
  again).\<close>

fun jsonRoundTrip :: "jsval \<Rightarrow> jsval" where
  "jsonRoundTrip (JArr xs) =
     JArr (map (\<lambda>x. if x = JUndefined then JNull else jsonRoundTrip x) xs)"
| "jsonRoundTrip (JObj kvs) =
     JObj (map (\<lambda>kv. (fst kv, jsonRoundTrip (snd kv))) (filter (\<lambda>kv. snd kv \<noteq> JUndefined) kvs))"
| "jsonRoundTrip v = v"

section \<open>The survey definition\<close>

text \<open>The definition is read-only data with a schema, so it is typed. A rule's
  \<^verbatim>\<open>optionId\<close> is absent, a string, or an array of strings; its \<^verbatim>\<open>threshold\<close> is a number or
  absent; the operator of a condition group is any JSON value, because the evaluator
  decides what an operator it does not know means.\<close>

datatype option_ref = NoOptionId | OptionId string | OptionIds "string list"

record rule =
  questionId :: string
  ctype :: string
  cvalue :: jsval
  threshold :: "rat option"
  optionId :: option_ref

record conditionGroup =
  operator :: jsval
  rules :: "rule list option"

record question =
  qid :: string
  required :: bool
  allowComment :: bool
  conditions :: "conditionGroup option"

record step =
  stepId :: string
  questions :: "question list option"

record survey =
  surveyId :: jsval
  surveyTitle :: jsval
  steps :: "step list option"

section \<open>surveyData.js: the engine state and local storage\<close>

record response =
  rvalue :: jsval
  timestamp :: string
  comment :: "string option"

text \<open>\<^verbatim>\<open>surveyState\<close>, the module-level singleton.\<close>

record surveyState =
  surveyDefinition :: "survey option"
  currentStepIndex :: int
  responses :: "(string \<times> response) list"
  isLoaded :: bool

definition initialState :: surveyState where
  "initialState =
     \<lparr>surveyDefinition = None, currentStepIndex = 0, responses = [], isLoaded = False\<rparr>"

text \<open>The two slots of \<^verbatim>\<open>localStorage\<close>. The step slot holds a string. The responses slot
  holds a string too; it is kept as what \<^verbatim>\<open>JSON.parse\<close> makes of it: a failure, or a
  response map.\<close>

datatype storedResponses = NotJSON | StoredJSON "(string \<times> response) list"

record localStorage =
  survey_current_step :: "string option"
  survey_responses :: "storedResponses option"

type_synonym world = "surveyState \<times> localStorage"

text \<open>\<^verbatim>\<open>saveProgress\<close>; \<^verbatim>\<open>setItem\<close> is taken to succeed.\<close>

definition saveProgress :: "world \<Rightarrow> world" where
  "saveProgress w =
     (fst w,
      (snd w)\<lparr>survey_current_step := Some (intToString (currentStepIndex (fst w))),
               survey_responses :=
                 Some (StoredJSON
                   (map (\<lambda>kr. (fst kr, (snd kr)\<lparr>rvalue := jsonRoundTrip (rvalue (snd kr))\<rparr>))
                     (responses (fst w))))\<rparr>)"

text \<open>\<^verbatim>\<open>surveyState.definition.steps.length\<close>\<close>

definition stepsLength :: "surveyState \<Rightarrow> error + int" where
  "stepsLength s =
     (case surveyDefinition s of
        None \<Rightarrow> Inl TypeError
      | Some d \<Rightarrow> (case steps d of None \<Rightarrow> Inl TypeError | Some ss \<Rightarrow> Inr (int (length ss))))"

definition goToStep :: "int \<Rightarrow> world \<Rightarrow> error + bool \<times> world" where
  "goToStep index w =
     (if \<not> isLoaded (fst w) \<or> index < 0 then Inr (False, w)
      else case stepsLength (fst w) of
             Inl e \<Rightarrow> Inl e
           | Inr n \<Rightarrow>
               if index \<ge> n then Inr (False, w)
               else Inr (True, saveProgress ((fst w)\<lparr>currentStepIndex := index\<rparr>, snd w)))"

definition nextStep :: "world \<Rightarrow> error + bool \<times> world" where
  "nextStep w = goToStep (currentStepIndex (fst w) + 1) w"

definition prevStep :: "world \<Rightarrow> error + bool \<times> world" where
  "prevStep w = goToStep (currentStepIndex (fst w) - 1) w"

definition hasVisitedStep :: "int \<Rightarrow> surveyState \<Rightarrow> bool" where
  "hasVisitedStep index s = (index \<le> currentStepIndex s)"

definition getStepByIndex :: "int \<Rightarrow> surveyState \<Rightarrow> error + step option" where
  "getStepByIndex index s =
     (if \<not> isLoaded s then Inr None
      else case surveyDefinition s of
             None \<Rightarrow> Inl TypeError
           | Some d \<Rightarrow>
               (case steps d of
                  None \<Rightarrow> Inr None
                | Some ss \<Rightarrow>
                    if index < 0 \<or> index \<ge> int (length ss) then Inr None
                    else Inr (Some (ss ! nat index))))"

definition getStepById :: "string \<Rightarrow> surveyState \<Rightarrow> error + step option" where
  "getStepById sid s =
     (if \<not> isLoaded s then Inr None
      else case surveyDefinition s of
             None \<Rightarrow> Inl TypeError
           | Some d \<Rightarrow>
               (case steps d of
                  None \<Rightarrow> Inr None
                | Some ss \<Rightarrow> Inr (find (\<lambda>st. stepId st = sid) ss)))"

definition getCurrentStep :: "surveyState \<Rightarrow> error + step option" where
  "getCurrentStep s = getStepByIndex (currentStepIndex s) s"

definition getResponse :: "string \<Rightarrow> surveyState \<Rightarrow> response option" where
  "getResponse q s = map_of (responses s) q"

text \<open>The test that surveyData.js and surveyNavigation.js write out three times:
  \<^verbatim>\<open>!response || response.value === undefined || response.value === null ||
  (Array.isArray(response.value) && response.value.length === 0) ||
  (typeof response.value === 'string' && response.value.trim() === '')\<close>\<close>

definition missingOrEmpty :: "response option \<Rightarrow> bool" where
  "missingOrEmpty r =
     (case r of
        None \<Rightarrow> True
      | Some resp \<Rightarrow>
          rvalue resp = JUndefined \<or> rvalue resp = JNull \<or>
          (case rvalue resp of
             JArr xs \<Rightarrow> length xs = 0
           | JStr t \<Rightarrow> trim t = []
           | _ \<Rightarrow> False))"

definition areAllRequiredQuestionsAnswered :: "string \<Rightarrow> surveyState \<Rightarrow> error + bool" where
  "areAllRequiredQuestionsAnswered sid s =
     (case getStepById sid s of
        Inl e \<Rightarrow> Inl e
      | Inr None \<Rightarrow> Inr True
      | Inr (Some st) \<Rightarrow>
          (case questions st of
             None \<Rightarrow> Inr True
           | Some qs \<Rightarrow>
               Inr (\<not> list_ex (\<lambda>q. missingOrEmpty (getResponse (qid q) s)) (filter required qs))))"

text \<open>\<^verbatim>\<open>saveResponse(questionId, value, comment = null)\<close>; \<open>now\<close> is
  \<^verbatim>\<open>new Date().toISOString()\<close>. A comment that is undefined takes the default null.\<close>

definition saveResponse ::
  "string \<Rightarrow> jsval \<Rightarrow> string option \<Rightarrow> string \<Rightarrow> world \<Rightarrow> bool \<times> world" where
  "saveResponse q v c now w =
     (if \<not> isLoaded (fst w) then (False, w)
      else
        let r = \<lparr>rvalue = v, timestamp = now, comment = None\<rparr>;
            r' = (case c of
                    None \<Rightarrow> r
                  | Some t \<Rightarrow> if trim t \<noteq> [] then r\<lparr>comment := Some t\<rparr> else r)
        in (True,
            saveProgress ((fst w)\<lparr>responses := AList.update q r' (responses (fst w))\<rparr>, snd w)))"

text \<open>\<^verbatim>\<open>restoreProgress\<close>: one try block around both slots, the step first. An exception
  ends the block; what was assigned before it stays.\<close>

definition restoreStep :: "world \<Rightarrow> error + world" where
  "restoreStep w =
     (case survey_current_step (snd w) of
        None \<Rightarrow> Inr w
      | Some savedStep \<Rightarrow>
          (case parseInt savedStep of
             None \<Rightarrow> Inr w
           | Some stepIndex \<Rightarrow>
               if stepIndex \<ge> 0 \<and> surveyDefinition (fst w) \<noteq> None then
                 (case stepsLength (fst w) of
                    Inl e \<Rightarrow> Inl e
                  | Inr n \<Rightarrow>
                      if stepIndex < n
                      then Inr ((fst w)\<lparr>currentStepIndex := stepIndex\<rparr>, snd w)
                      else Inr w)
               else Inr w))"

definition restoreResponses :: "world \<Rightarrow> error + world" where
  "restoreResponses w =
     (case survey_responses (snd w) of
        None \<Rightarrow> Inr w
      | Some NotJSON \<Rightarrow> Inl SyntaxError
      | Some (StoredJSON rs) \<Rightarrow> Inr ((fst w)\<lparr>responses := rs\<rparr>, snd w))"

definition restoreProgress :: "world \<Rightarrow> world" where
  "restoreProgress w =
     (case restoreStep w of
        Inl e \<Rightarrow> w
      | Inr w1 \<Rightarrow> (case restoreResponses w1 of Inl e \<Rightarrow> w1 | Inr w2 \<Rightarrow> w2))"

text \<open>\<^verbatim>\<open>loadSurveyDefinition\<close>: \<open>fetched\<close> is the outcome of the fetch and of parsing
  its body. A failure is rethrown before the state is touched.\<close>

definition loadSurveyDefinition :: "error + survey \<Rightarrow> world \<Rightarrow> error + survey \<times> world" where
  "loadSurveyDefinition fetched w =
     (case fetched of
        Inl e \<Rightarrow> Inl e
      | Inr surveyData \<Rightarrow>
          Inr (surveyData,
               restoreProgress
                 ((fst w)\<lparr>surveyDefinition := Some surveyData, isLoaded := True\<rparr>, snd w)))"

definition clearResponses :: "world \<Rightarrow> world" where
  "clearResponses w = saveProgress ((fst w)\<lparr>responses := [], currentStepIndex := 0\<rparr>, snd w)"

text \<open>\<^verbatim>\<open>submitSurvey\<close>. The identity claims and the persistence collaborator
  (\<^verbatim>\<open>dataService.saveUserData\<close>, which resolves or rejects with a message) are parameters.
  The result carries what was handed to the collaborator, and the state, which no
  statement of the function assigns.\<close>

record idTokenClaims =
  preferred_username :: jsval
  email :: jsval
  name :: jsval

record submissionData =
  sd_surveyId :: jsval
  sd_surveyTitle :: jsval
  sd_completedAt :: string
  sd_responses :: "(string \<times> response) list"
  sd_username :: jsval

definition orElse :: "jsval \<Rightarrow> jsval \<Rightarrow> jsval" where
  "orElse a b = (if truthy a then a else b)"

definition submitSurvey ::
  "idTokenClaims option \<Rightarrow> (submissionData \<Rightarrow> string + jsval) \<Rightarrow> string \<Rightarrow> world
     \<Rightarrow> (error + jsval) \<times> submissionData list \<times> world" where
  "submitSurvey idClaims saveUserData now w =
     (if \<not> isLoaded (fst w) \<or> length (map fst (responses (fst w))) = 0
      then (Inl EmptySubmission, [], w)
      else
        let username =
              (case idClaims of
                 None \<Rightarrow> JStr ''unknown''
               | Some cl \<Rightarrow>
                   orElse (preferred_username cl)
                     (orElse (email cl) (orElse (name cl) (JStr ''unknown''))))
        in case surveyDefinition (fst w) of
             None \<Rightarrow> (Inl TypeError, [], w)
           | Some d \<Rightarrow>
               let submission =
                     \<lparr>sd_surveyId = orElse (surveyId d) (JStr ''unknown''),
                      sd_surveyTitle = surveyTitle d,
                      sd_completedAt = now,
                      sd_responses = responses (fst w),
                      sd_username = username\<rparr>
               in (case saveUserData submission of
                     Inl msg \<Rightarrow> Inl (SubmitError msg)
                   | Inr result \<Rightarrow> Inr result,
                   [submission], w))"

section \<open>conditionEvaluator.js\<close>

fun optionIdTruthy :: "option_ref \<Rightarrow> bool" where
  "optionIdTruthy NoOptionId = False"
| "optionIdTruthy (OptionId k) = (k \<noteq> [])"
| "optionIdTruthy (OptionIds ks) = True"

text \<open>case EQUALS\<close>

definition evalEquals :: "jsval \<Rightarrow> jsval \<Rightarrow> error + bool" where
  "evalEquals responseValue v =
     (if typeofObject responseValue then
        (case getProp responseValue ''isOther'' of
           Inl e \<Rightarrow> Inl e
         | Inr other \<Rightarrow> if truthy other then Inr False else Inr (strictEq responseValue v))
      else Inr (strictEq responseValue v))"

text \<open>case CONTAINS\<close>

definition evalContains :: "jsval \<Rightarrow> jsval \<Rightarrow> bool" where
  "evalContains responseValue v =
     (case responseValue of
        JArr xs \<Rightarrow> list_ex (\<lambda>x. strictEq x v) xs
      | JObj kvs \<Rightarrow> list_ex (\<lambda>kc. strictEq (JStr (fst kc)) v \<and> truthy (snd kc)) kvs
      | _ \<Rightarrow> False)"

text \<open>case TOP_RANKED. \<^verbatim>\<open>positions.sort((a, b) => b[1] - a[1])\<close> is a stable sort by
  descending position when the positions are numbers; a list of one entry is never
  compared.\<close>

fun isNum :: "jsval \<Rightarrow> bool" where
  "isNum (JNum n) = True"
| "isNum v = False"

fun numOf :: "jsval \<Rightarrow> rat" where
  "numOf (JNum n) = n"
| "numOf v = 0"

definition sortByPositionDesc ::
  "(string \<times> jsval) list \<Rightarrow> error + (string \<times> jsval) list" where
  "sortByPositionDesc positions =
     (if length positions \<le> 1 then Inr positions
      else if list_all (\<lambda>kp. isNum (snd kp)) positions
      then Inr (sort_key (\<lambda>kp. - numOf (snd kp)) positions)
      else Inl Unmodelled)"

definition evalTopRanked :: "option_ref \<Rightarrow> jsval \<Rightarrow> error + bool" where
  "evalTopRanked oid responseValue =
     (if \<not> optionIdTruthy oid then Inr False
      else case getProp responseValue ''value'' of
             Inl e \<Rightarrow> Inl e
           | Inr v \<Rightarrow>
               if \<not> truthy v then Inr False
               else if typeofObject v \<and> length (map fst (entries v)) > 0 then
                 (let positions = entries v
                  in if length positions = 0 then Inr False
                     else case sortByPositionDesc positions of
                            Inl e \<Rightarrow> Inl e
                          | Inr ranked \<Rightarrow> Inr (OptionId (fst (hd ranked)) = oid))
               else Inr False)"

text \<open>case OPTION_CHECKED. \<^verbatim>\<open>condition.optionId.some(optionId =>
  responseValue[optionId] === true || responseValue === optionId)\<close>\<close>

fun someChecked :: "jsval \<Rightarrow> string list \<Rightarrow> error + bool" where
  "someChecked responseValue [] = Inr False"
| "someChecked responseValue (k # ks) =
     (case getProp responseValue k of
        Inl e \<Rightarrow> Inl e
      | Inr p \<Rightarrow>
          if p = JBool True \<or> strictEq responseValue (JStr k) then Inr True
          else someChecked responseValue ks)"

fun isString :: "jsval \<Rightarrow> bool" where
  "isString (JStr t) = True"
| "isString v = False"

definition evalOptionChecked :: "option_ref \<Rightarrow> jsval \<Rightarrow> error + bool" where
  "evalOptionChecked oid responseValue =
     (case oid of
        NoOptionId \<Rightarrow> Inr False
      | OptionIds ks \<Rightarrow> someChecked responseValue ks
      | OptionId k \<Rightarrow>
          if k = [] then Inr False
          else if truthy responseValue \<and> typeofObject responseValue then
            (case getProp responseValue k of
               Inl e \<Rightarrow> Inl e
             | Inr p \<Rightarrow> Inr (p = JBool True))
          else if truthy responseValue \<and> isString responseValue
          then Inr (responseValue = JStr k)
          else Inr False)"

text \<open>case ANSWERED\<close>

definition evalAnswered :: "response option \<Rightarrow> jsval \<Rightarrow> bool" where
  "evalAnswered response responseValue =
     (response \<noteq> None \<and> responseValue \<noteq> JNull \<and> responseValue \<noteq> JUndefined \<and>
      (case responseValue of JStr t \<Rightarrow> trim t \<noteq> [] | _ \<Rightarrow> True))"

definition evaluateCondition :: "rule \<Rightarrow> surveyState \<Rightarrow> error + bool" where
  "evaluateCondition condition s =
     (if questionId condition = [] \<or> ctype condition = [] then Inr False
      else
        let response = getResponse (questionId condition) s
        in if response = None \<and> ctype condition \<noteq> ''answered'' then Inr False
           else
             let responseValue = (case response of None \<Rightarrow> JNull | Some r \<Rightarrow> rvalue r)
             in if ctype condition = ''answered'' then Inr (evalAnswered response responseValue)
                else if ctype condition = ''equals''
                  then evalEquals responseValue (cvalue condition)
                else if ctype condition = ''notEquals''
                  then Inr (\<not> strictEq responseValue (cvalue condition))
                else if ctype condition = ''contains''
                  then Inr (evalContains responseValue (cvalue condition))
                else if ctype condition = ''greaterThan'' then
                  (case threshold condition of
                     None \<Rightarrow> Inr False
                   | Some t \<Rightarrow> Inr (greater (parseFloat responseValue) t))
                else if ctype condition = ''lessThan'' then
                  (case threshold condition of
                     None \<Rightarrow> Inr False
                   | Some t \<Rightarrow> Inr (less_than (parseFloat responseValue) t))
                else if ctype condition = ''topRanked''
                  then evalTopRanked (optionId condition) responseValue
                else if ctype condition = ''optionChecked''
                  then evalOptionChecked (optionId condition) responseValue
                else Inr False)"

text \<open>\<^verbatim>\<open>rules.map(rule => evaluateCondition(rule))\<close>: the first exception ends the map.\<close>

fun evaluateAll :: "rule list \<Rightarrow> surveyState \<Rightarrow> error + bool list" where
  "evaluateAll [] s = Inr []"
| "evaluateAll (r # rs) s =
     (case evaluateCondition r s of
        Inl e \<Rightarrow> Inl e
      | Inr b \<Rightarrow> (case evaluateAll rs s of Inl e \<Rightarrow> Inl e | Inr bs \<Rightarrow> Inr (b # bs)))"

definition shouldShowQuestion :: "question \<Rightarrow> surveyState \<Rightarrow> error + bool" where
  "shouldShowQuestion q s =
     (case conditions q of
        None \<Rightarrow> Inr True
      | Some g \<Rightarrow>
          (case rules g of
             None \<Rightarrow> Inr True
           | Some rs \<Rightarrow>
               if length rs = 0 then Inr True
               else
                 let op = (if truthy (operator g) then operator g else JStr ''and'')
                 in case evaluateAll rs s of
                      Inl e \<Rightarrow> Inl e
                    | Inr results \<Rightarrow>
                        if strictEq op (JStr ''and'') then Inr (list_all (\<lambda>r. r = True) results)
                        else if strictEq op (JStr ''or'') then Inr (list_ex (\<lambda>r. r = True) results)
                        else Inr True))"

section \<open>surveyNavigation.js\<close>

text \<open>\<^verbatim>\<open>validateCurrentStep\<close>, without the error message it attaches to the page.\<close>

definition validateCurrentStep :: "surveyState \<Rightarrow> error + bool" where
  "validateCurrentStep s =
     (case getCurrentStep s of
        Inl e \<Rightarrow> Inl e
      | Inr None \<Rightarrow> Inr True
      | Inr (Some currentStep) \<Rightarrow>
          (case questions currentStep of
             None \<Rightarrow> Inr True
           | Some qs \<Rightarrow>
               Inr (\<not> list_ex (\<lambda>q. missingOrEmpty (getResponse (qid q) s)) (filter required qs))))"

text \<open>\<^verbatim>\<open>handleNextStep\<close>, the click handler of the Next button, without the rendering.\<close>

definition handleNextStep :: "world \<Rightarrow> error + world" where
  "handleNextStep w =
     (case validateCurrentStep (fst w) of
        Inl e \<Rightarrow> Inl e
      | Inr valid \<Rightarrow>
          if \<not> valid then Inr w
          else (case nextStep w of Inl e \<Rightarrow> Inl e | Inr r \<Rightarrow> Inr (snd r)))"

section \<open>Runs of the engine\<close>

text \<open>The calls the rest of the application makes on surveyData.js. \<open>Reload\<close> is a new
  page session: the module state starts again, local storage stays. A call that throws
  leaves the state as it was, since every throw comes before the first assignment.\<close>

datatype op =
    Load "error + survey"
  | Reload
  | GoToStep int
  | NextStep
  | PrevStep
  | ClearResponses
  | SaveResponse string jsval "string option" string

fun apply_op :: "op \<Rightarrow> world \<Rightarrow> world" where
  "apply_op (Load fetched) w =
     (case loadSurveyDefinition fetched w of Inl e \<Rightarrow> w | Inr r \<Rightarrow> snd r)"
| "apply_op Reload w = (initialState, snd w)"
| "apply_op (GoToStep i) w = (case goToStep i w of Inl e \<Rightarrow> w | Inr r \<Rightarrow> snd r)"
| "apply_op NextStep w = (case nextStep w of Inl e \<Rightarrow> w | Inr r \<Rightarrow> snd r)"
| "apply_op PrevStep w = (case prevStep w of Inl e \<Rightarrow> w | Inr r \<Rightarrow> snd r)"
| "apply_op ClearResponses w = clearResponses w"
| "apply_op (SaveResponse q v c now) w = snd (saveResponse q v c now w)"

fun run :: "op list \<Rightarrow> world \<Rightarrow> world" where
  "run [] w = w"
| "run (x # xs) w = run xs (apply_op x w)"

fun isLoad :: "op \<Rightarrow> bool" where
  "isLoad (Load fetched) = True"
| "isLoad Reload = True"
| "isLoad x = False"

section \<open>Properties of states\<close>

text \<open>No response carries a comment that is empty or blank.\<close>

definition commentOk :: "response \<Rightarrow> bool" where
  "commentOk r = (case comment r of None \<Rightarrow> True | Some t \<Rightarrow> trim t \<noteq> [])"

definition commentsOk :: "(string \<times> response) list \<Rightarrow> bool" where
  "commentsOk rs = list_all (\<lambda>kr. commentOk (snd kr)) rs"

definition storageCommentsOk :: "localStorage \<Rightarrow> bool" where
  "storageCommentsOk ls =
     (case survey_responses ls of Some (StoredJSON rs) \<Rightarrow> commentsOk rs | _ \<Rightarrow> True)"

definition noBlankComments :: "world \<Rightarrow> bool" where
  "noBlankComments w = (commentsOk (responses (fst w)) \<and> storageCommentsOk (snd w))"

text \<open>\<^verbatim>\<open>0 <= currentStepIndex < steps.length\<close>\<close>

definition inBounds :: "surveyState \<Rightarrow> bool" where
  "inBounds s =
     (case stepsLength s of
        Inl e \<Rightarrow> False
      | Inr n \<Rightarrow> 0 \<le> currentStepIndex s \<and> currentStepIndex s < n)"

definition atStepOf :: "survey \<Rightarrow> world \<Rightarrow> bool" where
  "atStepOf d w = (surveyDefinition (fst w) = Some d \<and> inBounds (fst w))"

text \<open>The persisted step index that a load adopts for a definition of \<open>n\<close> steps, if any.\<close>

definition adoptedStep :: "localStorage \<Rightarrow> int \<Rightarrow> int option" where
  "adoptedStep ls n =
     (case survey_current_step ls of
        None \<Rightarrow> None
      | Some t \<Rightarrow>
          (case parseInt t of
             None \<Rightarrow> None
           | Some k \<Rightarrow> if 0 \<le> k \<and> k < n then Some k else None))"

text \<open>A mapping from option id to numeric position, as a JavaScript object.\<close>

definition positionsObject :: "(string \<times> rat) list \<Rightarrow> jsval" where
  "positionsObject qs = JObj (map (\<lambda>kn. (fst kn, JNum (snd kn))) qs)"

section \<open>Example surveys\<close>

definition emptyStorage :: localStorage where
  "emptyStorage = \<lparr>survey_current_step = None, survey_responses = None\<rparr>"

definition corruptStorage :: localStorage where
  "corruptStorage = \<lparr>survey_current_step = Some ''1'', survey_responses = Some NotJSON\<rparr>"

definition q1 :: question where
  "q1 = \<lparr>qid = ''Q1'', required = False, allowComment = True, conditions = None\<rparr>"

definition ruleOn :: "string \<Rightarrow> string \<Rightarrow> rule" where
  "ruleOn q t = \<lparr>questionId = q, ctype = t, cvalue = JStr ''yes'', threshold = None,
                 optionId = OptionId ''b''\<rparr>"

definition conditional :: "jsval \<Rightarrow> rule list \<Rightarrow> question" where
  "conditional oper rs =
     \<lparr>qid = ''Q2'', required = True, allowComment = False,
      conditions = Some \<lparr>operator = oper, rules = Some rs\<rparr>\<rparr>"

definition q2 :: question where
  "q2 = conditional (JStr ''and'') [ruleOn ''Q1'' ''equals'']"

definition q3 :: question where
  "q3 = \<lparr>qid = ''Q3'', required = True, allowComment = False, conditions = None\<rparr>"

definition exampleSurvey :: survey where
  "exampleSurvey =
     \<lparr>surveyId = JStr ''demo'', surveyTitle = JStr ''Demo'',
      steps = Some [\<lparr>stepId = ''s1'', questions = Some [q1, q2]\<rparr>,
                    \<lparr>stepId = ''s2'', questions = Some [q3]\<rparr>,
                    \<lparr>stepId = ''s3'', questions = None\<rparr>]\<rparr>"

definition oneStepSurvey :: survey where
  "oneStepSurvey =
     \<lparr>surveyId = JStr ''short'', surveyTitle = JStr ''Short'',
      steps = Some [\<lparr>stepId = ''only'', questions = Some [q1]\<rparr>]\<rparr>"

definition loaded :: world where
  "loaded = run [Load (Inr exampleSurvey)] (initialState, emptyStorage)"

text \<open>The loaded example after question \<open>q\<close> was answered with \<open>v\<close>, without a comment.\<close>

definition answered :: "string \<Rightarrow> jsval \<Rightarrow> world" where
  "answered q v = run [SaveResponse q v None ''2025-01-01T00:00:00.000Z''] loaded"

definition exampleOps :: "op list" where
  "exampleOps =
     [Load (Inr exampleSurvey), SaveResponse ''Q1'' (JStr ''yes'') (Some '' '') ''t1'',
      SaveResponse ''Q3'' (JStr ''x'') (Some ''fine'') ''t2'', Reload, Load (Inr exampleSurvey)]"

definition stepOps :: "op list" where
  "stepOps = [NextStep, NextStep, NextStep, PrevStep, GoToStep 7, ClearResponses, PrevStep]"

definition exampleClaims :: idTokenClaims where
  "exampleClaims =
     \<lparr>preferred_username = JUndefined, email = JStr ''a@b.c'', name = JStr ''A''\<rparr>"

section \<open>Facts about the examples\<close>

lemmas eval_defs = evaluateCondition_def getResponse_def evalAnswered_def evalEquals_def
  evalContains_def evalTopRanked_def evalOptionChecked_def sortByPositionDesc_def Let_def

lemma loaded_eq:
  "loaded =
     (\<lparr>surveyDefinition = Some exampleSurvey, currentStepIndex = 0, responses = [],
       isLoaded = True\<rparr>, emptyStorage)"
  by (simp add: loaded_def loadSurveyDefinition_def initialState_def emptyStorage_def
      restoreProgress_def restoreStep_def restoreResponses_def)

lemma answered_eq:
  "fst (answered q v) =
     \<lparr>surveyDefinition = Some exampleSurvey, currentStepIndex = 0,
      responses = [(q, \<lparr>rvalue = v, timestamp = ''2025-01-01T00:00:00.000Z'',
                        comment = None\<rparr>)],
      isLoaded = True\<rparr>"
  by (simp add: answered_def loaded_eq saveResponse_def saveProgress_def Let_def)

lemma exampleSurvey_steps:
  "steps exampleSurvey =
     Some [\<lparr>stepId = ''s1'', questions = Some [q1, q2]\<rparr>,
           \<lparr>stepId = ''s2'', questions = Some [q3]\<rparr>,
           \<lparr>stepId = ''s3'', questions = None\<rparr>]"
  by (simp add: exampleSurvey_def)

lemma parseInt_digit:
  "parseInt ''1'' = Some 1" "parseInt ''2'' = Some 2" "parseInt ''7'' = Some 7"
  by (simp_all add: parseInt_def isWhiteSpace_def isDigit_def digitsValue_def Let_def)

lemma intToString_digit: "intToString 0 = ''0''" "intToString 1 = ''1''" "intToString 2 = ''2''"
  by code_simp+

section \<open>Navigation\<close>

text \<open>
  C9. For a loaded survey with \<open>n\<close> steps and an index \<open>i\<close> with \<open>i < 0\<close> or \<open>i \<ge> n\<close>,
  \<open>goToStep i\<close> returns false and leaves the engine state and local storage as they
  were; so it does when no survey is loaded.
\<close>

theorem goToStep_out_of_range:
  "(isLoaded (fst w) \<longrightarrow> surveyDefinition (fst w) = Some d \<longrightarrow> steps d = Some ss \<longrightarrow>
      i < 0 \<or> int (length ss) \<le> i \<longrightarrow> goToStep i w = Inr (False, w)) \<and>
   (\<not> isLoaded (fst w) \<longrightarrow> goToStep i w = Inr (False, w))"
  by (auto simp: goToStep_def stepsLength_def)

theorem goToStep_out_of_range_witness:
  "isLoaded (fst loaded) \<and> surveyDefinition (fst loaded) = Some exampleSurvey \<and>
   steps exampleSurvey =
     Some [\<lparr>stepId = ''s1'', questions = Some [q1, q2]\<rparr>,
           \<lparr>stepId = ''s2'', questions = Some [q3]\<rparr>,
           \<lparr>stepId = ''s3'', questions = None\<rparr>] \<and>
   goToStep (- 1) loaded = Inr (False, loaded) \<and>
   goToStep 3 loaded = Inr (False, loaded) \<and>
   \<not> isLoaded (fst (initialState, emptyStorage)) \<and>
   goToStep 0 (initialState, emptyStorage) = Inr (False, (initialState, emptyStorage))"
proof -
  have l: "isLoaded (fst loaded)" and d: "surveyDefinition (fst loaded) = Some exampleSurvey"
    by (simp_all add: loaded_eq)
  note ss = exampleSurvey_steps
  have n: "\<not> isLoaded (fst (initialState, emptyStorage))"
    by (simp add: initialState_def)
  from goToStep_out_of_range [of loaded exampleSurvey _ "- 1"] l d ss
  have a: "goToStep (- 1) loaded = Inr (False, loaded)" by simp
  from goToStep_out_of_range [of loaded exampleSurvey _ 3] l d ss
  have b: "goToStep 3 loaded = Inr (False, loaded)" by simp
  from goToStep_out_of_range [of "(initialState, emptyStorage)" _ _ 0] n
  have c: "goToStep 0 (initialState, emptyStorage) = Inr (False, (initialState, emptyStorage))"
    by simp
  show ?thesis using l d ss n a b c by simp
qed

section \<open>Validation before advancing\<close>

text \<open>
  C1, as the claim states it, fails: on the first step of the example survey the only
  required question, Q2, is hidden (its rule on Q1 is false while Q1 has no response) and
  has no response; the validation fails all the same and the Next handler leaves the
  engine on step 0.
\<close>

theorem hidden_required_counterexample:
  "getCurrentStep (fst loaded) = Inr (Some \<lparr>stepId = ''s1'', questions = Some [q1, q2]\<rparr>) \<and>
   \<not> required q1 \<and> required q2 \<and>
   shouldShowQuestion q2 (fst loaded) = Inr False \<and>
   validateCurrentStep (fst loaded) = Inr False \<and>
   handleNextStep loaded = Inr loaded \<and>
   currentStepIndex (fst loaded) = 0"
  by (simp add: loaded_eq getCurrentStep_def getStepByIndex_def exampleSurvey_steps q1_def q2_def
      conditional_def ruleOn_def shouldShowQuestion_def eval_defs validateCurrentStep_def
      handleNextStep_def missingOrEmpty_def)

text \<open>
  C1, amended. The validation before advancing considers every required question of the
  active step, visible or not: it passes iff each of them has a non-empty response. The
  Next handler then calls \<open>nextStep\<close>, and otherwise leaves the state as it is.
\<close>

theorem validation_ignores_visibility:
  assumes "getCurrentStep (fst w) = Inr (Some st)" and "questions st = Some qs"
  shows "validateCurrentStep (fst w) =
           Inr (\<forall>q \<in> set qs. required q \<longrightarrow> \<not> missingOrEmpty (getResponse (qid q) (fst w))) \<and>
         handleNextStep w =
           (if \<forall>q \<in> set qs. required q \<longrightarrow> \<not> missingOrEmpty (getResponse (qid q) (fst w))
            then (case nextStep w of Inl e \<Rightarrow> Inl e | Inr r \<Rightarrow> Inr (snd r))
            else Inr w)"
  using assms
  by (auto simp: validateCurrentStep_def handleNextStep_def list_ex_iff)

theorem validation_ignores_visibility_witness:
  "getCurrentStep (fst (answered ''Q2'' (JStr ''x''))) =
     Inr (Some \<lparr>stepId = ''s1'', questions = Some [q1, q2]\<rparr>) \<and>
   questions \<lparr>stepId = ''s1'', questions = Some [q1, q2]\<rparr> = Some [q1, q2] \<and>
   validateCurrentStep (fst (answered ''Q2'' (JStr ''x''))) = Inr True \<and>
   handleNextStep (answered ''Q2'' (JStr ''x'')) =
     (case nextStep (answered ''Q2'' (JStr ''x'')) of Inl e \<Rightarrow> Inl e | Inr r \<Rightarrow> Inr (snd r)) \<and>
   currentStepIndex (fst (projr (handleNextStep (answered ''Q2'' (JStr ''x''))))) = 1 \<and>
   getCurrentStep (fst loaded) = Inr (Some \<lparr>stepId = ''s1'', questions = Some [q1, q2]\<rparr>) \<and>
   validateCurrentStep (fst loaded) = Inr False \<and>
   handleNextStep loaded = Inr loaded"
proof -
  let ?st = "\<lparr>stepId = ''s1'', questions = Some [q1, q2]\<rparr>"
  have c: "getCurrentStep (fst (answered ''Q2'' (JStr ''x''))) = Inr (Some ?st)"
    by (simp add: answered_eq getCurrentStep_def getStepByIndex_def exampleSurvey_steps)
  have c': "getCurrentStep (fst loaded) = Inr (Some ?st)"
    by (simp add: loaded_eq getCurrentStep_def getStepByIndex_def exampleSurvey_steps)
  have q: "questions ?st = Some [q1, q2]" by simp
  have a: "(\<forall>q \<in> set [q1, q2]. required q \<longrightarrow>
             \<not> missingOrEmpty (getResponse (qid q) (fst (answered ''Q2'' (JStr ''x''))))) = True"
    by (simp add: answered_eq q1_def q2_def conditional_def getResponse_def missingOrEmpty_def
        trim_def isWhiteSpace_def)
  have b: "(\<forall>q \<in> set [q1, q2]. required q \<longrightarrow>
             \<not> missingOrEmpty (getResponse (qid q) (fst loaded))) = False"
    by (simp add: loaded_eq q2_def conditional_def getResponse_def missingOrEmpty_def)
  from validation_ignores_visibility [OF c q]
  have 1: "validateCurrentStep (fst (answered ''Q2'' (JStr ''x''))) = Inr True \<and>
     handleNextStep (answered ''Q2'' (JStr ''x'')) =
       (case nextStep (answered ''Q2'' (JStr ''x'')) of Inl e \<Rightarrow> Inl e | Inr r \<Rightarrow> Inr (snd r))"
    by (simp only: a if_True)
  from validation_ignores_visibility [OF c' q]
  have 2: "validateCurrentStep (fst loaded) = Inr False \<and> handleNextStep loaded = Inr loaded"
    by (simp only: b if_False)
  have 3: "currentStepIndex (fst (projr (handleNextStep (answered ''Q2'' (JStr ''x''))))) = 1"
    using 1
    by (simp add: nextStep_def goToStep_def stepsLength_def answered_eq exampleSurvey_steps
        saveProgress_def)
  show ?thesis using c c' q 1 2 3 by simp
qed

section \<open>The condition evaluator\<close>

text \<open>
  C2. For a question whose one rule is of type \<^verbatim>\<open>answered\<close> on Q3, the evaluator hides
  the question while Q3 has no response, shows it once Q3 holds a non-empty value, and
  hides it again for a blank string. For an empty array it still shows the question,
  although the required check of surveyData.js counts the empty array as not answered.
\<close>

theorem answered_rule_empty_array:
  "shouldShowQuestion (conditional (JStr ''and'') [ruleOn ''Q3'' ''answered'']) (fst loaded)
     = Inr False \<and>
   shouldShowQuestion (conditional (JStr ''and'') [ruleOn ''Q3'' ''answered''])
     (fst (answered ''Q3'' (JStr ''a''))) = Inr True \<and>
   shouldShowQuestion (conditional (JStr ''and'') [ruleOn ''Q3'' ''answered''])
     (fst (answered ''Q3'' (JStr '' ''))) = Inr False \<and>
   shouldShowQuestion (conditional (JStr ''and'') [ruleOn ''Q3'' ''answered''])
     (fst (answered ''Q3'' (JArr []))) = Inr True \<and>
   areAllRequiredQuestionsAnswered ''s2'' (fst (answered ''Q3'' (JArr []))) = Inr False"
  by (simp add: loaded_eq answered_eq conditional_def ruleOn_def shouldShowQuestion_def
      eval_defs trim_def isWhiteSpace_def areAllRequiredQuestionsAnswered_def getStepById_def
      exampleSurvey_steps q3_def missingOrEmpty_def)

text \<open>
  C3, as the claim states it, fails: the empty string is an operator the evaluator does
  not know, yet the question is not shown when its one rule is false; an operator that
  is empty or absent is replaced by \<^verbatim>\<open>and\<close>.
\<close>

theorem falsy_operator_counterexample:
  "operator \<lparr>operator = JStr '''', rules = Some [ruleOn ''Q1'' ''equals'']\<rparr> \<noteq> JStr ''and'' \<and>
   operator \<lparr>operator = JStr '''', rules = Some [ruleOn ''Q1'' ''equals'']\<rparr> \<noteq> JStr ''or'' \<and>
   evaluateAll [ruleOn ''Q1'' ''equals''] (fst loaded) = Inr [False] \<and>
   shouldShowQuestion (conditional (JStr '''') [ruleOn ''Q1'' ''equals'']) (fst loaded) = Inr False"
  by (simp add: loaded_eq conditional_def ruleOn_def shouldShowQuestion_def eval_defs)

lemma evaluateAll_Inr:
  "(\<forall>r \<in> set rs. \<exists>b. evaluateCondition r s = Inr b) \<Longrightarrow>
   evaluateAll rs s = Inr (map (\<lambda>r. evaluateCondition r s = Inr True) rs)"
  by (induction rs) auto

text \<open>
  C3, amended. For a question with a non-empty rule list whose rules all evaluate to a
  boolean: with the operator \<^verbatim>\<open>'and'\<close>, or a falsy one (absent, null, the empty string,
  0, false), the question is shown iff every rule is true; with \<^verbatim>\<open>'or'\<close> iff at least one
  rule is true; with any other operator it is shown.
\<close>

theorem shouldShowQuestion_operator:
  assumes "conditions q = Some g" and "rules g = Some rs" and "rs \<noteq> []"
    and "\<forall>r \<in> set rs. \<exists>b. evaluateCondition r s = Inr b"
  shows "shouldShowQuestion q s =
           Inr (if operator g = JStr ''and'' \<or> \<not> truthy (operator g)
                then \<forall>r \<in> set rs. evaluateCondition r s = Inr True
                else if operator g = JStr ''or''
                then \<exists>r \<in> set rs. evaluateCondition r s = Inr True
                else True)"
proof -
  have e: "evaluateAll rs s = Inr (map (\<lambda>r. evaluateCondition r s = Inr True) rs)"
    using assms(4) by (rule evaluateAll_Inr)
  show ?thesis
    using assms(1-3)
    by (cases "operator g")
       (auto simp: shouldShowQuestion_def e list_all_iff list_ex_iff)
qed

lemma example_rules:
  "evaluateCondition (ruleOn ''Q1'' ''answered'') (fst (answered ''Q1'' (JStr ''no''))) = Inr True"
  "evaluateCondition (ruleOn ''Q1'' ''equals'') (fst (answered ''Q1'' (JStr ''no''))) = Inr False"
  by (simp_all add: answered_eq ruleOn_def eval_defs trim_def isWhiteSpace_def)

theorem shouldShowQuestion_operator_witness:
  "shouldShowQuestion (conditional (JStr ''and'') [ruleOn ''Q1'' ''answered'', ruleOn ''Q1'' ''equals''])
     (fst (answered ''Q1'' (JStr ''no''))) = Inr False \<and>
   shouldShowQuestion (conditional (JStr ''or'') [ruleOn ''Q1'' ''equals'', ruleOn ''Q1'' ''answered''])
     (fst (answered ''Q1'' (JStr ''no''))) = Inr True \<and>
   shouldShowQuestion (conditional (JStr ''xor'') [ruleOn ''Q1'' ''equals''])
     (fst (answered ''Q1'' (JStr ''no''))) = Inr True \<and>
   shouldShowQuestion (conditional JUndefined [ruleOn ''Q1'' ''equals''])
     (fst (answered ''Q1'' (JStr ''no''))) = Inr False"
proof -
  let ?s = "fst (answered ''Q1'' (JStr ''no''))"
  let ?a = "ruleOn ''Q1'' ''answered''" and ?e = "ruleOn ''Q1'' ''equals''"
  have c: "conditions (conditional oper rs) = Some \<lparr>operator = oper, rules = Some rs\<rparr>"
    for oper rs by (simp add: conditional_def)
  have r: "rules \<lparr>operator = oper, rules = Some rs\<rparr> = Some rs" for oper :: jsval and rs
    by simp
  have 1: "\<forall>r \<in> set [?a, ?e]. \<exists>b. evaluateCondition r ?s = Inr b"
    and 2: "\<forall>r \<in> set [?e, ?a]. \<exists>b. evaluateCondition r ?s = Inr b"
    and 3: "\<forall>r \<in> set [?e]. \<exists>b. evaluateCondition r ?s = Inr b"
    by (auto simp: example_rules)
  from shouldShowQuestion_operator [OF c r _ 1]
  have a: "shouldShowQuestion (conditional (JStr ''and'') [?a, ?e]) ?s = Inr False"
    by (simp add: example_rules)
  from shouldShowQuestion_operator [OF c r _ 2]
  have b: "shouldShowQuestion (conditional (JStr ''or'') [?e, ?a]) ?s = Inr True"
    by (simp add: example_rules)
  from shouldShowQuestion_operator [OF c r _ 3]
  have d: "shouldShowQuestion (conditional (JStr ''xor'') [?e]) ?s = Inr True"
    by simp
  from shouldShowQuestion_operator [OF c r _ 3]
  have e: "shouldShowQuestion (conditional JUndefined [?e]) ?s = Inr False"
    by (simp add: example_rules)
  show ?thesis using a b d e by simp
qed


subsection \<open>The top-ranked rule\<close>

lemma insort_key_map:
  "insort_key f (g x) (map g ys) = map g (insort_key (\<lambda>y. f (g y)) x ys)"
  by (induction ys) auto

lemma sort_key_map: "sort_key f (map g xs) = map g (sort_key (\<lambda>y. f (g y)) xs)"
  by (induction xs) (auto simp: insort_key_map)

lemma hd_insort_key:
  "hd (insort_key f x ys) = (if ys = [] \<or> f x \<le> f (hd ys) then x else hd ys)"
  by (cases ys) auto

lemma sort_key_Nil_iff: "sort_key f xs = [] \<longleftrightarrow> xs = []"
  by (metis length_0_conv length_sort)

text \<open>The head of a stable sort is the first element of least key.\<close>

lemma hd_sort_key_split:
  fixes f :: "'a \<Rightarrow> 'b::linorder"
  shows "xs \<noteq> [] \<Longrightarrow>
    \<exists>pre post. xs = pre @ hd (sort_key f xs) # post \<and>
      (\<forall>e \<in> set pre. f (hd (sort_key f xs)) < f e) \<and>
      (\<forall>e \<in> set post. f (hd (sort_key f xs)) \<le> f e)"
proof (induction xs)
  case Nil
  then show ?case by simp
next
  case (Cons x xs)
  show ?case
  proof (cases "xs = []")
    case True
    then show ?thesis by (intro exI [of _ "[]"]) simp
  next
    case False
    let ?h = "hd (sort_key f xs)"
    from Cons.IH [OF False] obtain pre post where
      s: "xs = pre @ ?h # post" "\<forall>e \<in> set pre. f ?h < f e" "\<forall>e \<in> set post. f ?h \<le> f e"
      by blast
    have ne: "sort_key f xs \<noteq> []" using False by (simp add: sort_key_Nil_iff)
    show ?thesis
    proof (cases "f x \<le> f ?h")
      case True
      then have h: "hd (sort_key f (x # xs)) = x" by (simp add: hd_insort_key)
      have "\<forall>e \<in> set xs. f x \<le> f e"
      proof
        fix e assume "e \<in> set xs"
        then have "e \<in> set pre \<or> e = ?h \<or> e \<in> set post"
          using s(1) by (metis Un_iff set_ConsD set_append)
        then show "f x \<le> f e" using True s(2,3) by (auto intro: order_trans less_imp_le)
      qed
      then show ?thesis unfolding h by (intro exI [of _ "[]"] exI [of _ xs]) simp
    next
      case False
      then have h: "hd (sort_key f (x # xs)) = ?h" using ne by (simp add: hd_insort_key)
      have "x # xs = (x # pre) @ ?h # post" using s(1) by simp
      moreover have "\<forall>e \<in> set (x # pre). f ?h < f e" using False s(2) by auto
      ultimately show ?thesis unfolding h using s(3) by blast
    qed
  qed
qed

lemma first_least_unique:
  fixes f :: "'a \<Rightarrow> 'b::linorder"
  assumes "pre @ a # post = pre' @ b # post'"
    and "\<forall>e \<in> set pre. f a < f e" and "\<forall>e \<in> set post. f a \<le> f e"
    and "\<forall>e \<in> set pre'. f b < f e" and "\<forall>e \<in> set post'. f b \<le> f e"
  shows "a = b"
proof -
  from assms(1) consider
      (eq) "pre = pre'" "a = b"
    | (lt) us where "pre' = pre @ a # us"
    | (gt) us where "pre = pre' @ b # us"
    by (auto simp: append_eq_append_conv2 append_eq_Cons_conv Cons_eq_append_conv)
  then show ?thesis
  proof cases
    case eq
    then show ?thesis by simp
  next
    case lt
    then have "f b < f a" using assms(4) by simp
    moreover have "b \<in> set post" using assms(1) lt by auto
    ultimately show ?thesis using assms(3) by (auto simp: not_le [symmetric])
  next
    case gt
    then have "f a < f b" using assms(2) by simp
    moreover have "a \<in> set post'" using assms(1) gt by auto
    ultimately show ?thesis using assms(5) by (auto simp: not_le [symmetric])
  qed
qed

lemma top_of_positions:
  assumes "qs \<noteq> []"
  shows "sortByPositionDesc (entries (positionsObject qs)) =
           Inr (map (\<lambda>kn. (fst kn, JNum (snd kn))) (sort_key (\<lambda>kn. - snd kn) qs))"
  by (simp add: sortByPositionDesc_def positionsObject_def list_all_iff sort_key_map)
     (cases qs; cases "tl qs"; simp)

text \<open>
  C4, as the claim states it, fails: with the mapping \<open>{a: 1, b: 5}\<close> itself stored as the
  response value of Q1, the rule \<^verbatim>\<open>topRanked\<close> for option \<open>b\<close> is false, although \<open>b\<close>
  holds the maximum. The evaluator reads the mapping from the key \<^verbatim>\<open>value\<close> of the
  stored value.
\<close>

theorem topRanked_unwrapped_counterexample:
  "optionId (ruleOn ''Q1'' ''topRanked'') = OptionId ''b'' \<and>
   evaluateCondition (ruleOn ''Q1'' ''topRanked'')
     (fst (answered ''Q1'' (positionsObject [(''a'', 1), (''b'', 5)]))) = Inr False"
  by (simp add: answered_eq ruleOn_def eval_defs positionsObject_def)

text \<open>
  C4, amended. For a rule of type \<^verbatim>\<open>topRanked\<close> with a non-empty option id \<open>k\<close>: when the
  stored response value is an object whose key \<^verbatim>\<open>value\<close> holds a non-empty mapping from
  option id to numeric position, the rule is true iff \<open>k\<close> is the key of the first entry
  that holds the maximum position. It is false when that mapping is empty, when the
  response is missing, when the stored value is the mapping itself (without a key
  \<^verbatim>\<open>value\<close>), and when the rule has no option id.
\<close>

theorem topRanked_first_maximum:
  assumes "ctype c = ''topRanked''" and "questionId c \<noteq> []"
    and "optionId c = OptionId k" and "k \<noteq> []"
  shows "(getResponse (questionId c) s = Some r \<and>
          rvalue r = JObj kvs \<and> map_of kvs ''value'' = Some (positionsObject qs) \<and> qs \<noteq> []
            \<longrightarrow> evaluateCondition c s =
                  Inr (\<exists>pre p post. qs = pre @ (k, p) # post \<and>
                         (\<forall>e \<in> set pre. snd e < p) \<and> (\<forall>e \<in> set post. snd e \<le> p))) \<and>
         (getResponse (questionId c) s = Some r \<and>
          rvalue r = JObj kvs \<and> map_of kvs ''value'' = Some (positionsObject [])
            \<longrightarrow> evaluateCondition c s = Inr False) \<and>
         (getResponse (questionId c) s = None \<longrightarrow> evaluateCondition c s = Inr False) \<and>
         (getResponse (questionId c) s = Some r \<and> rvalue r = positionsObject qs \<and>
          map_of qs ''value'' = None
            \<longrightarrow> evaluateCondition c s = Inr False) \<and>
         evaluateCondition (c\<lparr>optionId := NoOptionId\<rparr>) s = Inr False"
proof -
  let ?f = "\<lambda>kn :: string \<times> rat. - snd kn"
  let ?h = "hd (sort_key ?f qs)"
  have top: "(\<exists>pre p post. qs = pre @ (k, p) # post \<and>
                (\<forall>e \<in> set pre. snd e < p) \<and> (\<forall>e \<in> set post. snd e \<le> p)) \<longleftrightarrow> fst ?h = k"
    if ne: "qs \<noteq> []"
  proof
    assume "\<exists>pre p post. qs = pre @ (k, p) # post \<and>
                (\<forall>e \<in> set pre. snd e < p) \<and> (\<forall>e \<in> set post. snd e \<le> p)"
    then obtain pre p post where
      a: "qs = pre @ (k, p) # post" "\<forall>e \<in> set pre. snd e < p" "\<forall>e \<in> set post. snd e \<le> p"
      by blast
    from hd_sort_key_split [OF ne, of ?f] obtain pre' post' where
      b: "qs = pre' @ ?h # post'" "\<forall>e \<in> set pre'. ?f ?h < ?f e" "\<forall>e \<in> set post'. ?f ?h \<le> ?f e"
      by blast
    have "(k, p) = ?h"
    proof (rule first_least_unique [of pre "(k, p)" post pre' ?h post' ?f])
      show "pre @ (k, p) # post = pre' @ ?h # post'" using a(1) b(1) by simp
    qed (use a b in auto)
    then show "fst ?h = k" by (metis fst_conv)
  next
    assume k: "fst ?h = k"
    from hd_sort_key_split [OF ne, of ?f] obtain pre' post' where
      b: "qs = pre' @ ?h # post'" "\<forall>e \<in> set pre'. ?f ?h < ?f e" "\<forall>e \<in> set post'. ?f ?h \<le> ?f e"
      by blast
    have "qs = pre' @ (k, snd ?h) # post'" using b(1) k by (metis prod.collapse)
    moreover have "\<forall>e \<in> set pre'. snd e < snd ?h" using b(2) by simp
    moreover have "\<forall>e \<in> set post'. snd e \<le> snd ?h" using b(3) by simp
    ultimately show "\<exists>pre p post. qs = pre @ (k, p) # post \<and>
                (\<forall>e \<in> set pre. snd e < p) \<and> (\<forall>e \<in> set post. snd e \<le> p)"
      by blast
  qed
  have main: "evaluateCondition c s = Inr (fst ?h = k)"
    if "getResponse (questionId c) s = Some r" "rvalue r = JObj kvs"
      "map_of kvs ''value'' = Some (positionsObject qs)" "qs \<noteq> []"
  proof -
    have e: "entries (positionsObject qs) = map (\<lambda>kn. (fst kn, JNum (snd kn))) qs"
      by (simp add: positionsObject_def)
    have ne: "sort_key ?f qs \<noteq> []" using that(4) by (simp add: sort_key_Nil_iff)
    have t: "truthy (positionsObject qs)" "typeofObject (positionsObject qs)"
      by (simp_all add: positionsObject_def)
    show ?thesis
      using assms that ne t top_of_positions [OF that(4)]
      by (simp add: evaluateCondition_def evalTopRanked_def Let_def hd_map e)
  qed
  have empty: "evaluateCondition c s = Inr False"
    if "getResponse (questionId c) s = Some r" "rvalue r = JObj kvs"
      "map_of kvs ''value'' = Some (positionsObject [])"
    using assms that
    by (simp add: evaluateCondition_def evalTopRanked_def Let_def positionsObject_def)
  have missing: "evaluateCondition c s = Inr False" if "getResponse (questionId c) s = None"
    using assms that by (simp add: evaluateCondition_def)
  have direct: "evaluateCondition c s = Inr False"
    if "getResponse (questionId c) s = Some r" "rvalue r = positionsObject qs"
      "map_of qs ''value'' = None"
  proof -
    have "map_of (map (\<lambda>kn. (fst kn, JNum (snd kn))) qs) ''value'' = None"
      using that(3) by (induction qs) (auto split: if_splits)
    then show ?thesis
      using assms that
      by (simp add: evaluateCondition_def evalTopRanked_def Let_def positionsObject_def)
  qed
  have absent: "evaluateCondition (c\<lparr>optionId := NoOptionId\<rparr>) s = Inr False"
    using assms by (simp add: evaluateCondition_def evalTopRanked_def Let_def)
  show ?thesis
    using main top empty missing direct absent by simp
qed

theorem topRanked_first_maximum_witness:
  "ctype (ruleOn ''Q1'' ''topRanked'') = ''topRanked'' \<and>
   questionId (ruleOn ''Q1'' ''topRanked'') \<noteq> [] \<and>
   optionId (ruleOn ''Q1'' ''topRanked'') = OptionId ''b'' \<and>
   evaluateCondition (ruleOn ''Q1'' ''topRanked'')
     (fst (answered ''Q1''
        (JObj [(''value'', positionsObject [(''a'', 1), (''b'', 5), (''c'', 5)]),
               (''comment'', JStr '''')]))) = Inr True \<and>
   evaluateCondition (ruleOn ''Q1'' ''topRanked'')
     (fst (answered ''Q1''
        (JObj [(''value'', positionsObject [(''a'', 1), (''c'', 5), (''b'', 5)]),
               (''comment'', JStr '''')]))) = Inr False \<and>
   evaluateCondition (ruleOn ''Q1'' ''topRanked'') (fst loaded) = Inr False"
proof -
  let ?c = "ruleOn ''Q1'' ''topRanked''"
  let ?kvs = "\<lambda>qs. [(''value'', positionsObject qs), (''comment'', JStr '''')]"
  let ?r = "\<lambda>qs. \<lparr>rvalue = JObj (?kvs qs), timestamp = ''2025-01-01T00:00:00.000Z'',
                  comment = None\<rparr>"
  have h: "ctype ?c = ''topRanked''" "questionId ?c \<noteq> []" "optionId ?c = OptionId ''b''"
    "''b'' \<noteq> []"
    by (simp_all add: ruleOn_def)
  have g: "getResponse (questionId ?c) (fst (answered ''Q1'' (JObj (?kvs qs)))) = Some (?r qs)"
    for qs by (simp add: ruleOn_def answered_eq getResponse_def)
  have m: "map_of (?kvs qs) ''value'' = Some (positionsObject qs)" for qs
    by simp
  have n: "getResponse (questionId ?c) (fst loaded) = None"
    by (simp add: ruleOn_def loaded_eq getResponse_def)
  have 1: "\<exists>pre p post. [(''a'', 1), (''b'', 5), (''c'', 5 :: rat)] = pre @ (''b'', p) # post \<and>
             (\<forall>e \<in> set pre. snd e < p) \<and> (\<forall>e \<in> set post. snd e \<le> p)"
    by (intro exI [of _ "[(''a'', 1)]"] exI [of _ 5] exI [of _ "[(''c'', 5)]"]) simp
  have 2: "\<not> (\<exists>pre p post. [(''a'', 1), (''c'', 5), (''b'', 5 :: rat)] = pre @ (''b'', p) # post \<and>
             (\<forall>e \<in> set pre. snd e < p) \<and> (\<forall>e \<in> set post. snd e \<le> p))"
    by (auto simp: append_eq_Cons_conv Cons_eq_append_conv)
  from topRanked_first_maximum [OF h, of "fst (answered ''Q1'' (JObj (?kvs [(''a'', 1), (''b'', 5), (''c'', 5)])))"
      "?r [(''a'', 1), (''b'', 5), (''c'', 5)]" "?kvs [(''a'', 1), (''b'', 5), (''c'', 5)]"
      "[(''a'', 1), (''b'', 5), (''c'', 5)]"] g m 1
  have a: "evaluateCondition ?c
     (fst (answered ''Q1'' (JObj (?kvs [(''a'', 1), (''b'', 5), (''c'', 5)])))) = Inr True"
    by simp
  from topRanked_first_maximum [OF h, of "fst (answered ''Q1'' (JObj (?kvs [(''a'', 1), (''c'', 5), (''b'', 5)])))"
      "?r [(''a'', 1), (''c'', 5), (''b'', 5)]" "?kvs [(''a'', 1), (''c'', 5), (''b'', 5)]"
      "[(''a'', 1), (''c'', 5), (''b'', 5)]"] g m 2
  have b: "evaluateCondition ?c
     (fst (answered ''Q1'' (JObj (?kvs [(''a'', 1), (''c'', 5), (''b'', 5)])))) = Inr False"
    by simp
  from topRanked_first_maximum [OF h, of "fst loaded"] n
  have c: "evaluateCondition ?c (fst loaded) = Inr False"
    by simp
  show ?thesis using h a b c by simp
qed

text \<open>
  C7. The comment field of Q1 saves \<^verbatim>\<open>saveResponse(questionId, null, comment)\<close> when Q1 has
  no response yet. With that response stored, evaluating a rule of type \<^verbatim>\<open>equals\<close> or
  \<^verbatim>\<open>topRanked\<close> on Q1 throws a TypeError, and so does \<open>shouldShowQuestion\<close>.
\<close>

theorem shouldShowQuestion_throws_on_null:
  "shouldShowQuestion q2 (fst (run [SaveResponse ''Q1'' JNull (Some ''a note'') ''t''] loaded))
     = Inl TypeError \<and>
   shouldShowQuestion (conditional (JStr ''or'') [ruleOn ''Q1'' ''topRanked''])
     (fst (run [SaveResponse ''Q1'' JNull (Some ''a note'') ''t''] loaded)) = Inl TypeError"
  by (simp add: loaded_eq saveResponse_def saveProgress_def q2_def conditional_def ruleOn_def
      shouldShowQuestion_def eval_defs trim_def isWhiteSpace_def)


section \<open>Comments\<close>

lemma commentsOk_update:
  "commentsOk rs \<Longrightarrow> commentOk r \<Longrightarrow> commentsOk (AList.update q r rs)"
  by (induction rs) (auto simp: commentsOk_def)

lemma commentsOk_stored:
  "commentsOk (map (\<lambda>kr. (fst kr, (snd kr)\<lparr>rvalue := f (rvalue (snd kr))\<rparr>)) rs) = commentsOk rs"
  by (induction rs) (auto simp: commentsOk_def commentOk_def)

lemma saveProgress_noBlank:
  "commentsOk (responses (fst w)) \<Longrightarrow> noBlankComments (saveProgress w)"
  by (simp add: noBlankComments_def saveProgress_def storageCommentsOk_def commentsOk_stored)

lemma noBlankD: "noBlankComments w \<Longrightarrow> commentsOk (responses (fst w))"
  by (simp add: noBlankComments_def)

lemma goToStep_noBlank:
  "noBlankComments w \<Longrightarrow> goToStep i w = Inr r \<Longrightarrow> noBlankComments (snd r)"
  by (auto simp: goToStep_def saveProgress_noBlank noBlankD
      split: if_splits sum.splits)

lemma restoreProgress_noBlank:
  "noBlankComments w \<Longrightarrow> noBlankComments (restoreProgress w)"
  by (auto simp: noBlankComments_def restoreProgress_def restoreStep_def restoreResponses_def
      storageCommentsOk_def split: option.splits sum.splits storedResponses.splits if_splits)

lemma saveResponse_noBlank:
  "noBlankComments w \<Longrightarrow> noBlankComments (snd (saveResponse q v c now w))"
  by (auto simp: saveResponse_def Let_def commentOk_def noBlankD
      intro!: saveProgress_noBlank commentsOk_update split: option.splits)

lemma apply_op_noBlank:
  assumes "noBlankComments w"
  shows "noBlankComments (apply_op x w)"
proof (cases x)
  case (Load fetched)
  have "noBlankComments ((fst w)\<lparr>surveyDefinition := Some d, isLoaded := True\<rparr>, snd w)" for d
    using assms by (simp add: noBlankComments_def)
  then show ?thesis using Load assms
    by (cases fetched) (simp_all add: loadSurveyDefinition_def restoreProgress_noBlank)
next
  case Reload
  then show ?thesis using assms
    by (simp add: noBlankComments_def initialState_def commentsOk_def)
next
  case (GoToStep i)
  then show ?thesis using assms goToStep_noBlank [of w i]
    by (auto split: sum.splits)
next
  case NextStep
  then show ?thesis using assms goToStep_noBlank [of w]
    by (auto simp: nextStep_def split: sum.splits)
next
  case PrevStep
  then show ?thesis using assms goToStep_noBlank [of w]
    by (auto simp: prevStep_def split: sum.splits)
next
  case ClearResponses
  then show ?thesis
    by (auto simp: clearResponses_def commentsOk_def intro!: saveProgress_noBlank)
next
  case (SaveResponse q v c now)
  then show ?thesis using assms by (simp add: saveResponse_noBlank)
qed

lemma run_noBlank: "noBlankComments w \<Longrightarrow> noBlankComments (run ops w)"
  by (induction ops arbitrary: w) (auto simp: apply_op_noBlank)

text \<open>
  C5. Start from the initial module state and a local storage whose responses slot is
  absent, unparseable, or holds responses without blank comments (the engine is the only
  writer of the slot). After any sequence of loads, page reloads, navigation, clearing and
  \<open>saveResponse\<close> calls (with any comment argument), no response in the store or in
  local storage has a comment that is empty or blank: the comment is absent or non-blank.
\<close>

theorem no_blank_comments:
  assumes "storageCommentsOk ls"
  shows "commentsOk (responses (fst (run ops (initialState, ls)))) \<and>
         storageCommentsOk (snd (run ops (initialState, ls))) \<and>
         (\<forall>q r. getResponse q (fst (run ops (initialState, ls))) = Some r \<longrightarrow>
            comment r = None \<or> (\<exists>t. comment r = Some t \<and> trim t \<noteq> []))"
proof -
  have "noBlankComments (initialState, ls)"
    using assms by (simp add: noBlankComments_def initialState_def commentsOk_def)
  then have n: "noBlankComments (run ops (initialState, ls))" by (rule run_noBlank)
  have "comment r = None \<or> (\<exists>t. comment r = Some t \<and> trim t \<noteq> [])"
    if "getResponse q (fst (run ops (initialState, ls))) = Some r" for q r
  proof -
    from that have "(q, r) \<in> set (responses (fst (run ops (initialState, ls))))"
      by (simp add: getResponse_def map_of_SomeD)
    with n have "commentOk r"
      by (auto simp: noBlankComments_def commentsOk_def list_all_iff)
    then show ?thesis by (auto simp: commentOk_def split: option.splits)
  qed
  with n show ?thesis by (simp add: noBlankComments_def)
qed

theorem no_blank_comments_witness:
  "storageCommentsOk emptyStorage \<and>
   commentsOk (responses (fst (run exampleOps (initialState, emptyStorage)))) \<and>
   map (\<lambda>kr. comment (snd kr)) (responses (fst (run exampleOps (initialState, emptyStorage)))) = [None, Some ''fine'']"
proof -
  have s: "storageCommentsOk emptyStorage"
    by (simp add: storageCommentsOk_def emptyStorage_def)
  have e: "map (\<lambda>kr. comment (snd kr)) (responses (fst (run exampleOps (initialState, emptyStorage)))) = [None, Some ''fine'']"
    by (simp add: exampleOps_def loadSurveyDefinition_def restoreProgress_def restoreStep_def
        restoreResponses_def initialState_def emptyStorage_def saveResponse_def saveProgress_def
        trim_def isWhiteSpace_def Let_def intToString_digit parseInt_def isDigit_def
        digitsValue_def stepsLength_def exampleSurvey_steps)
  from no_blank_comments [OF s, of exampleOps] e s show ?thesis by simp
qed

section \<open>Restoring progress\<close>

text \<open>
  C6, as the claim states it, fails: with an unparseable responses slot and the step slot
  holding \<^verbatim>\<open>"1"\<close>, loading the three-step example survey into a fresh engine ends on
  step 1, not on step 0. The step is restored before the responses are parsed.
\<close>

theorem corrupt_responses_counterexample:
  "survey_responses corruptStorage = Some NotJSON \<and>
   currentStepIndex (fst (run [Load (Inr exampleSurvey)] (initialState, corruptStorage))) = 1"
  by (simp add: corruptStorage_def loadSurveyDefinition_def restoreProgress_def restoreStep_def
      restoreResponses_def initialState_def parseInt_digit stepsLength_def exampleSurvey_steps)

text \<open>
  C6, amended. If the responses slot holds a string that fails JSON parsing, the load
  does not throw; afterwards the response map is what it was before the load (empty in a
  fresh engine), local storage is untouched, and \<open>currentStepIndex\<close> is the persisted
  index when that parses as an integer in bounds for the loaded definition, and what it
  was before (0 in a fresh engine) otherwise.
\<close>

theorem load_with_corrupt_responses:
  assumes "survey_responses ls = Some NotJSON"
  shows "\<exists>w'. loadSurveyDefinition (Inr d) (s, ls) = Inr (d, w') \<and>
           responses (fst w') = responses s \<and> snd w' = ls \<and>
           isLoaded (fst w') \<and> surveyDefinition (fst w') = Some d \<and>
           (\<forall>ss. steps d = Some ss \<longrightarrow>
              currentStepIndex (fst w') =
                (case adoptedStep ls (int (length ss)) of
                   None \<Rightarrow> currentStepIndex s | Some k \<Rightarrow> k)) \<and>
           (steps d = None \<longrightarrow> currentStepIndex (fst w') = currentStepIndex s)"
  using assms
  by (auto simp: loadSurveyDefinition_def restoreProgress_def restoreStep_def
      restoreResponses_def stepsLength_def adoptedStep_def split: option.splits)

theorem load_with_corrupt_responses_witness:
  "survey_responses corruptStorage = Some NotJSON \<and>
   responses (fst (snd (projr (loadSurveyDefinition (Inr exampleSurvey)
     (initialState, corruptStorage))))) = [] \<and>
   currentStepIndex (fst (snd (projr (loadSurveyDefinition (Inr exampleSurvey)
     (initialState, corruptStorage))))) = 1 \<and>
   responses (fst (snd (projr (loadSurveyDefinition (Inr exampleSurvey)
     (initialState, corruptStorage\<lparr>survey_current_step := Some ''7''\<rparr>))))) = [] \<and>
   currentStepIndex (fst (snd (projr (loadSurveyDefinition (Inr exampleSurvey)
     (initialState, corruptStorage\<lparr>survey_current_step := Some ''7''\<rparr>))))) = 0"
proof -
  have c: "survey_responses corruptStorage = Some NotJSON"
    and c': "survey_responses (corruptStorage\<lparr>survey_current_step := Some ''7''\<rparr>) = Some NotJSON"
    by (simp_all add: corruptStorage_def)
  have a1: "adoptedStep corruptStorage 3 = Some 1"
    by (simp add: adoptedStep_def corruptStorage_def parseInt_digit)
  have a7: "adoptedStep (corruptStorage\<lparr>survey_current_step := Some ''7''\<rparr>) 3 = None"
    by (simp add: adoptedStep_def corruptStorage_def parseInt_digit)
  from load_with_corrupt_responses [OF c, of exampleSurvey initialState]
    load_with_corrupt_responses [OF c', of exampleSurvey initialState]
  show ?thesis using c a1 a7 by (auto simp: exampleSurvey_steps initialState_def)
qed

section \<open>The step index\<close>

text \<open>
  C8, as the claim states it, fails: after the three-step example survey is loaded and
  the engine has moved to step 2, loading a one-step survey leaves \<open>currentStepIndex\<close> at
  2, out of bounds for the loaded definition. Loading does not reset the index, and the
  persisted index \<^verbatim>\<open>"2"\<close> is (rightly) not adopted.
\<close>

theorem reload_counterexample:
  "steps oneStepSurvey = Some [\<lparr>stepId = ''only'', questions = Some [q1]\<rparr>] \<and>
   surveyDefinition (fst (run [Load (Inr exampleSurvey), GoToStep 2, Load (Inr oneStepSurvey)]
        (initialState, emptyStorage))) = Some oneStepSurvey \<and>
   currentStepIndex (fst (run [Load (Inr exampleSurvey), GoToStep 2, Load (Inr oneStepSurvey)]
        (initialState, emptyStorage))) = 2"
  by (simp add: loadSurveyDefinition_def restoreProgress_def restoreStep_def
      restoreResponses_def initialState_def emptyStorage_def goToStep_def stepsLength_def
      exampleSurvey_steps saveProgress_def intToString_digit parseInt_digit oneStepSurvey_def)

lemma load_index:
  assumes "steps d = Some ss"
  shows "\<exists>w'. loadSurveyDefinition (Inr d) (s, ls) = Inr (d, w') \<and>
      surveyDefinition (fst w') = Some d \<and> isLoaded (fst w') \<and>
      currentStepIndex (fst w') =
        (case adoptedStep ls (int (length ss)) of None \<Rightarrow> currentStepIndex s | Some k \<Rightarrow> k)"
  using assms
  by (auto simp: loadSurveyDefinition_def restoreProgress_def restoreStep_def
      restoreResponses_def stepsLength_def adoptedStep_def
      split: option.splits storedResponses.splits)

lemma adoptedStep_bounds: "adoptedStep ls n = Some k \<Longrightarrow> 0 \<le> k \<and> k < n"
  by (auto simp: adoptedStep_def split: option.splits if_splits)

lemma goToStep_atStepOf:
  "atStepOf d w \<Longrightarrow> goToStep i w = Inr r \<Longrightarrow> atStepOf d (snd r)"
  by (auto simp: atStepOf_def goToStep_def inBounds_def stepsLength_def saveProgress_def
      split: if_splits option.splits sum.splits)

lemma apply_op_atStepOf:
  assumes "atStepOf d w" "\<not> isLoad x"
  shows "atStepOf d (apply_op x w)"
proof (cases x)
  case (GoToStep i)
  then show ?thesis using assms goToStep_atStepOf [of d w i]
    by (auto split: sum.splits)
next
  case NextStep
  then show ?thesis using assms goToStep_atStepOf [of d w]
    by (auto simp: nextStep_def split: sum.splits)
next
  case PrevStep
  then show ?thesis using assms goToStep_atStepOf [of d w]
    by (auto simp: prevStep_def split: sum.splits)
next
  case ClearResponses
  then show ?thesis using assms
    by (auto simp: atStepOf_def clearResponses_def inBounds_def stepsLength_def saveProgress_def
        split: option.splits)
next
  case (SaveResponse q v c now)
  then show ?thesis using assms
    by (auto simp: atStepOf_def saveResponse_def inBounds_def stepsLength_def Let_def
        saveProgress_def split: option.splits)
qed (use assms in auto)

lemma run_atStepOf:
  "atStepOf d w \<Longrightarrow> \<not> list_ex isLoad ops \<Longrightarrow> atStepOf d (run ops w)"
  by (induction ops arbitrary: w) (auto simp: apply_op_atStepOf)

text \<open>
  C8, amended. When a survey with steps is loaded into an engine whose \<open>currentStepIndex\<close>
  is in bounds for it (a fresh engine, index 0, and a non-empty steps array in particular),
  then \<open>currentStepIndex\<close> is in \<open>[0, steps.length)\<close> after the load and after any
  sequence of \<open>goToStep\<close>, \<open>nextStep\<close>, \<open>prevStep\<close>, \<open>clearResponses\<close> and \<open>saveResponse\<close>.
  The load adopts the persisted step index only when it parses as an integer in bounds
  for the loaded definition, and keeps the index otherwise; a successful \<open>goToStep i\<close>
  has \<open>i\<close> in bounds and assigns it; \<open>clearResponses\<close> sets the index to 0.
\<close>

theorem currentStepIndex_in_bounds:
  assumes "steps d = Some ss"
    and "0 \<le> currentStepIndex s" and "currentStepIndex s < int (length ss)"
    and "\<not> list_ex isLoad ops"
  shows "inBounds (fst (run ops (apply_op (Load (Inr d)) (s, ls)))) \<and>
         currentStepIndex (fst (apply_op (Load (Inr d)) (s, ls))) =
           (case adoptedStep ls (int (length ss)) of
              None \<Rightarrow> currentStepIndex s | Some k \<Rightarrow> k) \<and>
         (goToStep i w = Inr (True, w') \<longrightarrow> currentStepIndex (fst w') = i \<and> inBounds (fst w')) \<and>
         currentStepIndex (fst (clearResponses w)) = 0"
proof -
  from load_index [OF assms(1), of s ls] obtain w1 where
    w1: "loadSurveyDefinition (Inr d) (s, ls) = Inr (d, w1)"
      "surveyDefinition (fst w1) = Some d"
      "currentStepIndex (fst w1) =
        (case adoptedStep ls (int (length ss)) of None \<Rightarrow> currentStepIndex s | Some k \<Rightarrow> k)"
    by blast
  have "atStepOf d w1"
    using w1 assms adoptedStep_bounds [of ls "int (length ss)"]
    by (auto simp: atStepOf_def inBounds_def stepsLength_def split: option.splits)
  then have "atStepOf d (run ops w1)"
    using assms(4) by (rule run_atStepOf)
  then have a: "inBounds (fst (run ops (apply_op (Load (Inr d)) (s, ls))))"
    using w1 by (simp add: atStepOf_def)
  have b: "currentStepIndex (fst (apply_op (Load (Inr d)) (s, ls))) =
           (case adoptedStep ls (int (length ss)) of
              None \<Rightarrow> currentStepIndex s | Some k \<Rightarrow> k)"
    using w1 by simp
  have c: "currentStepIndex (fst w') = i \<and> inBounds (fst w')" if "goToStep i w = Inr (True, w')"
    using that
    by (auto simp: goToStep_def inBounds_def stepsLength_def saveProgress_def
        split: if_splits option.splits sum.splits)
  have e: "currentStepIndex (fst (clearResponses w)) = 0"
    by (simp add: clearResponses_def saveProgress_def)
  show ?thesis using a b c e by simp
qed

theorem currentStepIndex_in_bounds_witness:
  "steps exampleSurvey =
     Some [\<lparr>stepId = ''s1'', questions = Some [q1, q2]\<rparr>,
           \<lparr>stepId = ''s2'', questions = Some [q3]\<rparr>,
           \<lparr>stepId = ''s3'', questions = None\<rparr>] \<and>
   0 \<le> currentStepIndex initialState \<and> currentStepIndex initialState < 3 \<and>
   \<not> list_ex isLoad stepOps \<and>
   inBounds (fst (run stepOps
     (apply_op (Load (Inr exampleSurvey))
        (initialState, emptyStorage\<lparr>survey_current_step := Some ''2''\<rparr>)))) \<and>
   currentStepIndex (fst (apply_op (Load (Inr exampleSurvey))
        (initialState, emptyStorage\<lparr>survey_current_step := Some ''2''\<rparr>))) = 2 \<and>
   currentStepIndex (fst (apply_op (Load (Inr exampleSurvey))
        (initialState, emptyStorage\<lparr>survey_current_step := Some ''7''\<rparr>))) = 0"
proof -
  note ss = exampleSurvey_steps
  have i: "0 \<le> currentStepIndex initialState"
    "currentStepIndex initialState <
       int (length [\<lparr>stepId = ''s1'', questions = Some [q1, q2]\<rparr>,
           \<lparr>stepId = ''s2'', questions = Some [q3]\<rparr>,
           \<lparr>stepId = ''s3'', questions = None\<rparr>])"
    by (simp_all add: initialState_def)
  have n: "\<not> list_ex isLoad stepOps"
    by (simp add: stepOps_def)
  have a2: "adoptedStep (emptyStorage\<lparr>survey_current_step := Some ''2''\<rparr>) 3 = Some 2"
    and a7: "adoptedStep (emptyStorage\<lparr>survey_current_step := Some ''7''\<rparr>) 3 = None"
    by (simp_all add: adoptedStep_def parseInt_digit)
  from currentStepIndex_in_bounds [OF ss i n, of "emptyStorage\<lparr>survey_current_step := Some ''2''\<rparr>"]
    currentStepIndex_in_bounds [OF ss i n, of "emptyStorage\<lparr>survey_current_step := Some ''7''\<rparr>"]
  show ?thesis using ss i n a2 a7 by (simp add: initialState_def)
qed

section \<open>Submission\<close>

text \<open>
  C10. \<open>submitSurvey\<close> fails with the empty-submission error iff no survey is loaded or
  the response map is empty; then nothing is handed to the persistence collaborator and
  the state is unchanged. With a loaded survey and at least one response, exactly one
  payload is handed over, carrying the survey id and title, the time and the whole
  response map, and the outcome is the collaborator's.
\<close>

theorem submitSurvey_empty_submission:
  "(fst (submitSurvey cl save now w) = Inl EmptySubmission
      \<longleftrightarrow> \<not> isLoaded (fst w) \<or> responses (fst w) = []) \<and>
   (\<not> isLoaded (fst w) \<or> responses (fst w) = []
      \<longrightarrow> submitSurvey cl save now w = (Inl EmptySubmission, [], w)) \<and>
   (isLoaded (fst w) \<and> responses (fst w) \<noteq> [] \<and> surveyDefinition (fst w) = Some d
      \<longrightarrow> (\<exists>p. fst (snd (submitSurvey cl save now w)) = [p] \<and>
               fst (submitSurvey cl save now w) =
                 (case save p of Inl msg \<Rightarrow> Inl (SubmitError msg) | Inr result \<Rightarrow> Inr result) \<and>
               sd_surveyId p = orElse (surveyId d) (JStr ''unknown'') \<and>
               sd_surveyTitle p = surveyTitle d \<and>
               sd_completedAt p = now \<and>
               sd_responses p = responses (fst w)) \<and>
          snd (snd (submitSurvey cl save now w)) = w)"
  by (auto simp: submitSurvey_def Let_def split: option.splits sum.splits)

theorem submitSurvey_empty_submission_witness:
  "submitSurvey (Some exampleClaims) (\<lambda>p. Inr JNull) ''t'' loaded
     = (Inl EmptySubmission, [], loaded) \<and>
   submitSurvey (Some exampleClaims) (\<lambda>p. Inr JNull) ''t'' (initialState, emptyStorage)
     = (Inl EmptySubmission, [], (initialState, emptyStorage)) \<and>
   isLoaded (fst (answered ''Q1'' (JStr ''yes''))) \<and>
   responses (fst (answered ''Q1'' (JStr ''yes''))) \<noteq> [] \<and>
   surveyDefinition (fst (answered ''Q1'' (JStr ''yes''))) = Some exampleSurvey \<and>
   fst (submitSurvey (Some exampleClaims) (\<lambda>p. Inr JNull) ''t'' (answered ''Q1'' (JStr ''yes'')))
     \<noteq> Inl EmptySubmission \<and>
   length (fst (snd (submitSurvey (Some exampleClaims) (\<lambda>p. Inr JNull) ''t''
     (answered ''Q1'' (JStr ''yes''))))) = 1 \<and>
   snd (snd (submitSurvey (Some exampleClaims) (\<lambda>p. Inr JNull) ''t''
     (answered ''Q1'' (JStr ''yes'')))) = answered ''Q1'' (JStr ''yes'')"
proof -
  let ?a = "answered ''Q1'' (JStr ''yes'')"
  have e1: "responses (fst loaded) = []" by (simp add: loaded_eq)
  have e2: "\<not> isLoaded (fst (initialState, emptyStorage))" by (simp add: initialState_def)
  have a: "isLoaded (fst ?a)" "responses (fst ?a) \<noteq> []"
    "surveyDefinition (fst ?a) = Some exampleSurvey"
    by (simp_all add: answered_eq)
  from submitSurvey_empty_submission [of "Some exampleClaims" "\<lambda>p. Inr JNull" "''t''" loaded] e1
  have 1: "submitSurvey (Some exampleClaims) (\<lambda>p. Inr JNull) ''t'' loaded
     = (Inl EmptySubmission, [], loaded)" by simp
  from submitSurvey_empty_submission
    [of "Some exampleClaims" "\<lambda>p. Inr JNull" "''t''" "(initialState, emptyStorage)"] e2
  have 2: "submitSurvey (Some exampleClaims) (\<lambda>p. Inr JNull) ''t'' (initialState, emptyStorage)
     = (Inl EmptySubmission, [], (initialState, emptyStorage))" by simp
  from submitSurvey_empty_submission
    [of "Some exampleClaims" "\<lambda>p. Inr JNull" "''t''" ?a exampleSurvey] a
  have 3: "fst (submitSurvey (Some exampleClaims) (\<lambda>p. Inr JNull) ''t'' ?a) \<noteq> Inl EmptySubmission \<and>
     length (fst (snd (submitSurvey (Some exampleClaims) (\<lambda>p. Inr JNull) ''t'' ?a))) = 1 \<and>
     snd (snd (submitSurvey (Some exampleClaims) (\<lambda>p. Inr JNull) ''t'' ?a)) = ?a"
    by auto
  show ?thesis using a 1 2 3 by simp
qed


end
